theory Spec2Isabelle
  imports Main "HOL-Library.Word"
begin

unbundle bit_operations_syntax

section \<open>The Freescale LINFlex UART model of hw/char/fsl-linflex.c\<close>

text \<open>
  The device is a file of 32-bit registers, written and read by the guest through
  \<open>fsl_linflex_write\<close> and \<open>fsl_linflex_read\<close> and filled by the character
  backend through \<open>fsl_linflex_rx\<close>. The calls the device makes into the rest of
  the emulator (the interrupt line, the character front end, the log) are recorded as a
  list of events, in the order of the calls.
\<close>

subsection \<open>Data\<close>

text \<open>
  Modelled from the spec: the enumeration \<open>LinflexRegs\<close> is declared in
  hw/char/fsl-linflex.h, which is not among the source files. The register table of the
  spec (section 6) gives the registers and their indices, offset / 4, from 0 to 20; the
  assignments of \<open>fsl_linflex_reset_init\<close> list the same names in the same order.
\<close>

datatype LinflexRegs =
    LINFLEX_LINCR1
  | LINFLEX_LINIER
  | LINFLEX_LINSR
  | LINFLEX_LINESR
  | LINFLEX_UARTCR
  | LINFLEX_UARTSR
  | LINFLEX_LINTCSR
  | LINFLEX_LINOCR
  | LINFLEX_LINTOCR
  | LINFLEX_LINFBRR
  | LINFLEX_LINIBRR
  | LINFLEX_LINCFR
  | LINFLEX_LINCR2
  | LINFLEX_BIDR
  | LINFLEX_BDRL
  | LINFLEX_BDRM
  | LINFLEX_GCR
  | LINFLEX_UARTPTO
  | LINFLEX_UARTCTO
  | LINFLEX_DMATXE
  | LINFLEX_DMARXE

definition linflex_regs :: "LinflexRegs list" where
  "linflex_regs =
    [LINFLEX_LINCR1, LINFLEX_LINIER, LINFLEX_LINSR, LINFLEX_LINESR, LINFLEX_UARTCR,
     LINFLEX_UARTSR, LINFLEX_LINTCSR, LINFLEX_LINOCR, LINFLEX_LINTOCR, LINFLEX_LINFBRR,
     LINFLEX_LINIBRR, LINFLEX_LINCFR, LINFLEX_LINCR2, LINFLEX_BIDR, LINFLEX_BDRL,
     LINFLEX_BDRM, LINFLEX_GCR, LINFLEX_UARTPTO, LINFLEX_UARTCTO, LINFLEX_DMATXE,
     LINFLEX_DMARXE]"

text \<open>
  The bit masks of the registers are macros of the same missing header. The spec names
  the flags and gives no values, so the model takes them as a parameter: every function
  below receives the masks, and every theorem holds for all values of them.
\<close>

record linflex_bits =
  LINCR1_INIT :: "32 word"
  LINSR_LINS_INIT :: "32 word"
  LINIER_DRIE :: "32 word"
  LINIER_DTIE :: "32 word"
  UARTCR_UART :: "32 word"
  UARTSR_DRFRFE :: "32 word"
  UARTSR_DTFTFF :: "32 word"
  UARTSR_RMB :: "32 word"

text \<open>
  One value of the parameter, to run the model on concrete inputs: the bit positions of
  the LINFlexD register layout (INIT is bit 0 of LINCR1, the INIT state is bit 12 of
  LINSR, DTIE and DRIE are bits 1 and 2 of LINIER, UART is bit 0 of UARTCR, DTFTFF,
  DRFRFE and RMB are bits 1, 2 and 9 of UARTSR).
\<close>

definition linflexd_bits :: linflex_bits where
  "linflexd_bits =
    \<lparr>LINCR1_INIT = 0x1, LINSR_LINS_INIT = 0x1000, LINIER_DRIE = 0x4, LINIER_DTIE = 0x2,
     UARTCR_UART = 0x1, UARTSR_DRFRFE = 0x4, UARTSR_DTFTFF = 0x2, UARTSR_RMB = 0x200\<rparr>"

text \<open>
  \<open>FslLinflexState\<close>: of the fields of the C structure only \<open>regs\<close> holds state
  of the device; the array has one slot for each register of the enumeration, so it is a
  total function on it. \<open>irq\<close> and \<open>chr\<close> are handles of the interrupt line and the
  character front end: what the device does to them is an event.
\<close>

record FslLinflexState =
  regs :: "LinflexRegs \<Rightarrow> 32 word"

datatype log_class = LOG_UNIMP | LOG_GUEST_ERROR

datatype event =
    Qemu_set_irq int
  | Qemu_chr_fe_accept_input
  | Qemu_chr_fe_write_all "8 word list"
  | Qemu_log_mask log_class

text \<open>\<open>s->regs[r] = x\<close>\<close>

definition set_reg :: "FslLinflexState \<Rightarrow> LinflexRegs \<Rightarrow> 32 word \<Rightarrow> FslLinflexState" where
  "set_reg s r x = s\<lparr>regs := (regs s)(r := x)\<rparr>"

subsection \<open>Address decoding\<close>

text \<open>
  \<open>LinflexRegs reg = offset >> 2\<close>: the offset is a 64-bit \<open>hwaddr\<close>, the
  enumeration has the width of \<open>unsigned int\<close>. A value that is no enumerator reaches
  the \<open>default\<close> label of the switch: that is \<open>None\<close> here.
\<close>

definition reg_of_index :: "nat \<Rightarrow> LinflexRegs option" where
  "reg_of_index i = (if i < length linflex_regs then Some (linflex_regs ! i) else None)"

definition decode_reg :: "64 word \<Rightarrow> LinflexRegs option" where
  "decode_reg offset = reg_of_index (unat (ucast (drop_bit 2 offset) :: 32 word))"

subsection \<open>The interrupt line\<close>

definition fsl_linflex_update_irq :: "linflex_bits \<Rightarrow> FslLinflexState \<Rightarrow> event list" where
  "fsl_linflex_update_irq k s =
    (if regs s LINFLEX_LINIER AND LINIER_DRIE k \<noteq> 0
        \<and> regs s LINFLEX_UARTSR AND UARTSR_DRFRFE k \<noteq> 0
     then [Qemu_set_irq 1]
     else if regs s LINFLEX_LINIER AND LINIER_DTIE k \<noteq> 0
        \<and> regs s LINFLEX_UARTSR AND UARTSR_DTFTFF k \<noteq> 0
     then [Qemu_set_irq 1]
     else [Qemu_set_irq 0])"

subsection \<open>Guest writes\<close>

text \<open>
  The body of the switch of \<open>fsl_linflex_write\<close>, one equation for each label, on
  the value already truncated to 32 bits (\<open>value = (uint32_t)value\<close>: from there on the
  upper half of the 64-bit variable is zero, and every use of it is masked, stored into a
  32-bit slot or narrowed to a byte). The result is the list of calls made and the new
  state.
\<close>

fun write_switch ::
  "linflex_bits \<Rightarrow> FslLinflexState \<Rightarrow> LinflexRegs option \<Rightarrow> 32 word
    \<Rightarrow> event list \<times> FslLinflexState" where
  "write_switch k s (Some LINFLEX_LINCR1) v =
    (let s1 = set_reg s LINFLEX_LINCR1 (v AND 0x0001DF27) in
     if regs s1 LINFLEX_LINCR1 AND LINCR1_INIT k \<noteq> 0
     then ([], set_reg s1 LINFLEX_LINSR (regs s1 LINFLEX_LINSR OR LINSR_LINS_INIT k))
     else ([], s1))"
| "write_switch k s (Some LINFLEX_LINIER) v =
    ([], set_reg s LINFLEX_LINIER (v AND 0x0000FFFF))"
| "write_switch k s (Some LINFLEX_LINSR) v = ([Qemu_log_mask LOG_UNIMP], s)"
| "write_switch k s (Some LINFLEX_LINESR) v = ([Qemu_log_mask LOG_UNIMP], s)"
| "write_switch k s (Some LINFLEX_UARTCR) v =
    (if regs s LINFLEX_LINCR1 AND LINCR1_INIT k \<noteq> 0
     then
       (let s1 = set_reg s LINFLEX_UARTCR (regs s LINFLEX_UARTCR OR (v AND UARTCR_UART k)) in
        if regs s1 LINFLEX_UARTCR AND UARTCR_UART k \<noteq> 0
        then ([], set_reg s1 LINFLEX_UARTCR (regs s1 LINFLEX_UARTCR OR v))
        else ([], s1))
     else if regs s LINFLEX_UARTCR AND UARTCR_UART k \<noteq> 0
     then ([], set_reg s LINFLEX_UARTCR (regs s LINFLEX_UARTCR OR (v AND 0x0070FC30)))
     else ([], s))"
| "write_switch k s (Some LINFLEX_UARTSR) v =
    (let v16 = v AND 0xFFFF;
         mask = UARTSR_DRFRFE k OR UARTSR_RMB k;
         accept = (if regs s LINFLEX_UARTSR AND mask \<noteq> 0 \<and> \<not> (v16 AND mask \<noteq> 0)
                   then [Qemu_chr_fe_accept_input] else [])
     in (accept, set_reg s LINFLEX_UARTSR (regs s LINFLEX_UARTSR AND NOT v16)))"
| "write_switch k s (Some LINFLEX_LINTCSR) v = ([Qemu_log_mask LOG_UNIMP], s)"
| "write_switch k s (Some LINFLEX_LINOCR) v = ([Qemu_log_mask LOG_UNIMP], s)"
| "write_switch k s (Some LINFLEX_LINTOCR) v = ([Qemu_log_mask LOG_UNIMP], s)"
| "write_switch k s (Some LINFLEX_LINFBRR) v = ([Qemu_log_mask LOG_UNIMP], s)"
| "write_switch k s (Some LINFLEX_LINIBRR) v = ([Qemu_log_mask LOG_UNIMP], s)"
| "write_switch k s (Some LINFLEX_LINCFR) v = ([Qemu_log_mask LOG_UNIMP], s)"
| "write_switch k s (Some LINFLEX_LINCR2) v = ([Qemu_log_mask LOG_UNIMP], s)"
| "write_switch k s (Some LINFLEX_BIDR) v = ([Qemu_log_mask LOG_UNIMP], s)"
| "write_switch k s (Some LINFLEX_BDRL) v =
    (let s1 = set_reg s LINFLEX_BDRL v;
         ch = (ucast v :: 8 word)
     in ([Qemu_chr_fe_write_all [ch]],
         set_reg s1 LINFLEX_UARTSR (regs s1 LINFLEX_UARTSR OR UARTSR_DTFTFF k)))"
| "write_switch k s (Some LINFLEX_BDRM) v = ([Qemu_log_mask LOG_UNIMP], s)"
| "write_switch k s (Some LINFLEX_GCR) v = ([Qemu_log_mask LOG_UNIMP], s)"
| "write_switch k s (Some LINFLEX_UARTPTO) v = ([Qemu_log_mask LOG_UNIMP], s)"
| "write_switch k s (Some LINFLEX_UARTCTO) v = ([Qemu_log_mask LOG_UNIMP], s)"
| "write_switch k s (Some LINFLEX_DMATXE) v = ([Qemu_log_mask LOG_UNIMP], s)"
| "write_switch k s (Some LINFLEX_DMARXE) v = ([Qemu_log_mask LOG_UNIMP], s)"
| "write_switch k s None v = ([Qemu_log_mask LOG_GUEST_ERROR], s)"

text \<open>
  \<open>fsl_linflex_write(opaque, offset, value, size)\<close>: the switch, then
  \<open>fsl_linflex_update_irq\<close> on the state it leaves. The access size is not read.
\<close>

definition fsl_linflex_write ::
  "linflex_bits \<Rightarrow> FslLinflexState \<Rightarrow> 64 word \<Rightarrow> 64 word \<Rightarrow> nat
    \<Rightarrow> event list \<times> FslLinflexState" where
  "fsl_linflex_write k s offset val sz =
    (let (evs, s1) = write_switch k s (decode_reg offset) (ucast val :: 32 word)
     in (evs @ fsl_linflex_update_irq k s1, s1))"

subsection \<open>Guest reads\<close>

text \<open>
  \<open>fsl_linflex_read(opaque, offset, size)\<close> returns the 32-bit \<open>r\<close> widened to
  \<open>uint64_t\<close>; the read of LINCR1 also stores into the register. The labels of
  the switch other than LINCR1 and BDRM (LINIER to BDRL, GCR to DMARXE) share one body:
  they log the read as unimplemented and return the slot.
\<close>

fun read_switch ::
  "FslLinflexState \<Rightarrow> LinflexRegs option \<Rightarrow> 32 word \<times> event list \<times> FslLinflexState" where
  "read_switch s (Some LINFLEX_LINCR1) =
    (let s1 = set_reg s LINFLEX_LINCR1 (regs s LINFLEX_LINCR1 OR 0x00000080)
     in (regs s1 LINFLEX_LINCR1, [], s1))"
| "read_switch s (Some LINFLEX_BDRM) = (regs s LINFLEX_BDRM AND 0xFF, [], s)"
| "read_switch s (Some r) = (regs s r, [Qemu_log_mask LOG_UNIMP], s)"
| "read_switch s None = (0, [Qemu_log_mask LOG_GUEST_ERROR], s)"

definition fsl_linflex_read ::
  "FslLinflexState \<Rightarrow> 64 word \<Rightarrow> nat \<Rightarrow> 64 word \<times> event list \<times> FslLinflexState" where
  "fsl_linflex_read s offset sz =
    (let (r, evs, s1) = read_switch s (decode_reg offset) in ((ucast r :: 64 word), evs, s1))"

subsection \<open>The character backend\<close>

text \<open>
  \<open>fsl_linflex_rx(opaque, buf, size)\<close> reads \<open>*buf\<close>, the first byte of the
  buffer. With no byte to read the C function has no defined result: \<open>None\<close>.
\<close>

fun fsl_linflex_rx ::
  "linflex_bits \<Rightarrow> FslLinflexState \<Rightarrow> 8 word list \<Rightarrow> (event list \<times> FslLinflexState) option" where
  "fsl_linflex_rx k s [] = None"
| "fsl_linflex_rx k s (b # bs) =
    (let s1 = set_reg s LINFLEX_BDRM (ucast b);
         s2 = set_reg s1 LINFLEX_UARTSR (regs s1 LINFLEX_UARTSR OR UARTSR_DRFRFE k);
         s3 = set_reg s2 LINFLEX_UARTSR (regs s2 LINFLEX_UARTSR OR UARTSR_RMB k)
     in Some (fsl_linflex_update_irq k s3, s3))"

definition fsl_linflex_can_rx :: "linflex_bits \<Rightarrow> FslLinflexState \<Rightarrow> int" where
  "fsl_linflex_can_rx k s =
    (if regs s LINFLEX_UARTSR AND UARTSR_DRFRFE k \<noteq> 0
        \<or> regs s LINFLEX_UARTSR AND UARTSR_RMB k \<noteq> 0
     then 0 else 1)"

subsection \<open>Reset\<close>

text \<open>\<open>fsl_linflex_reset_init\<close>: \<open>memset\<close> to zero, then the power-on values.\<close>

definition fsl_linflex_reset_init :: "FslLinflexState \<Rightarrow> FslLinflexState" where
  "fsl_linflex_reset_init s =
    s\<lparr>regs := (\<lambda>_. 0)
      (LINFLEX_LINCR1 := 0x00000082,
       LINFLEX_LINIER := 0,
       LINFLEX_LINSR := 0x00000040,
       LINFLEX_LINESR := 0,
       LINFLEX_UARTCR := 0,
       LINFLEX_UARTSR := 0,
       LINFLEX_LINTCSR := 0x00000200,
       LINFLEX_LINOCR := 0x0000FFFF,
       LINFLEX_LINTOCR := 0x00000E2C,
       LINFLEX_LINFBRR := 0,
       LINFLEX_LINIBRR := 0,
       LINFLEX_LINCFR := 0,
       LINFLEX_LINCR2 := 0x00006000,
       LINFLEX_BIDR := 0,
       LINFLEX_BDRL := 0,
       LINFLEX_BDRM := 0,
       LINFLEX_GCR := 0,
       LINFLEX_UARTPTO := 0x00000FFF,
       LINFLEX_UARTCTO := 0,
       LINFLEX_DMATXE := 0,
       LINFLEX_DMARXE := 0)\<rparr>"

definition fsl_linflex_reset_hold :: "linflex_bits \<Rightarrow> FslLinflexState \<Rightarrow> FslLinflexState" where
  "fsl_linflex_reset_hold k s =
    set_reg s LINFLEX_UARTSR (regs s LINFLEX_UARTSR OR UARTSR_DTFTFF k)"

definition fsl_linflex_reset_exit ::
  "linflex_bits \<Rightarrow> FslLinflexState \<Rightarrow> event list \<times> FslLinflexState" where
  "fsl_linflex_reset_exit k s = (fsl_linflex_update_irq k s @ [Qemu_chr_fe_accept_input], s)"

text \<open>The state after the three phases of a reset, whatever the state before.\<close>

definition reset_state :: "linflex_bits \<Rightarrow> FslLinflexState" where
  "reset_state k =
    snd (fsl_linflex_reset_exit k
      (fsl_linflex_reset_hold k (fsl_linflex_reset_init \<lparr>regs = (\<lambda>_. 0)\<rparr>)))"

subsection \<open>Reading the events\<close>

text \<open>The levels the interrupt line was driven to, in order.\<close>

fun irq_levels :: "event list \<Rightarrow> int list" where
  "irq_levels [] = []"
| "irq_levels (Qemu_set_irq l # es) = l # irq_levels es"
| "irq_levels (e # es) = irq_levels es"

text \<open>The bytes handed to \<open>qemu_chr_fe_write_all\<close>, in order.\<close>

fun chr_written :: "event list \<Rightarrow> 8 word list" where
  "chr_written [] = []"
| "chr_written (Qemu_chr_fe_write_all bs # es) = bs @ chr_written es"
| "chr_written (e # es) = chr_written es"

text \<open>How often \<open>qemu_chr_fe_accept_input\<close> was called.\<close>

definition accept_input_calls :: "event list \<Rightarrow> nat" where
  "accept_input_calls es = length (filter (\<lambda>e. e = Qemu_chr_fe_accept_input) es)"

subsection \<open>Auxiliary notions\<close>

text \<open>
  The registers whose label in the switch of \<open>fsl_linflex_write\<close> only logs
  "not implemented" (LINSR shares the body of LINESR).
\<close>

definition write_unimplemented :: "LinflexRegs list" where
  "write_unimplemented =
    [LINFLEX_LINSR, LINFLEX_LINESR, LINFLEX_LINTCSR, LINFLEX_LINOCR, LINFLEX_LINTOCR,
     LINFLEX_LINFBRR, LINFLEX_LINIBRR, LINFLEX_LINCFR, LINFLEX_LINCR2, LINFLEX_BIDR,
     LINFLEX_BDRM, LINFLEX_GCR, LINFLEX_UARTPTO, LINFLEX_UARTCTO, LINFLEX_DMATXE,
     LINFLEX_DMARXE]"

text \<open>The state a delivery of \<open>buf\<close> leaves.\<close>

definition rx_state :: "linflex_bits \<Rightarrow> FslLinflexState \<Rightarrow> 8 word list \<Rightarrow> FslLinflexState" where
  "rx_state k s buf = (case fsl_linflex_rx k s buf of Some (evs, s') \<Rightarrow> s' | None \<Rightarrow> s)"

section \<open>Basic facts\<close>

lemma regs_set_reg: "regs (set_reg s r x) r' = (if r' = r then x else regs s r')"
  by (simp add: set_reg_def)

lemma fst_write:
  "fst (fsl_linflex_write k s offset val sz) =
    fst (write_switch k s (decode_reg offset) (ucast val)) @
    fsl_linflex_update_irq k (snd (write_switch k s (decode_reg offset) (ucast val)))"
  by (simp add: fsl_linflex_write_def split_beta)

lemma snd_write:
  "snd (fsl_linflex_write k s offset val sz) =
    snd (write_switch k s (decode_reg offset) (ucast val))"
  by (simp add: fsl_linflex_write_def split_beta)

lemma irq_levels_append: "irq_levels (xs @ ys) = irq_levels xs @ irq_levels ys"
  by (induction xs rule: irq_levels.induct) simp_all

lemma irq_levels_update_irq:
  "irq_levels (fsl_linflex_update_irq k s) =
    [if (regs s LINFLEX_LINIER AND LINIER_DRIE k \<noteq> 0
         \<and> regs s LINFLEX_UARTSR AND UARTSR_DRFRFE k \<noteq> 0)
       \<or> (regs s LINFLEX_LINIER AND LINIER_DTIE k \<noteq> 0
         \<and> regs s LINFLEX_UARTSR AND UARTSR_DTFTFF k \<noteq> 0)
     then 1 else 0]"
  by (simp add: fsl_linflex_update_irq_def)

lemma irq_levels_write_switch: "irq_levels (fst (write_switch k s r v)) = []"
proof (cases r)
  case None
  then show ?thesis by simp
next
  case (Some a)
  then show ?thesis by (cases a) (simp_all add: Let_def)
qed

lemma accept_input_calls_update_irq: "accept_input_calls (fsl_linflex_update_irq k s) = 0"
  by (simp add: fsl_linflex_update_irq_def accept_input_calls_def)

lemma accept_input_calls_append:
  "accept_input_calls (xs @ ys) = accept_input_calls xs + accept_input_calls ys"
  by (simp add: accept_input_calls_def)

lemma chr_written_update_irq: "chr_written (fsl_linflex_update_irq k s) = []"
  by (simp add: fsl_linflex_update_irq_def)

lemma chr_written_append: "chr_written (xs @ ys) = chr_written xs @ chr_written ys"
  by (induction xs rule: chr_written.induct) simp_all

lemma write_switch_unimplemented:
  "r \<in> set write_unimplemented \<Longrightarrow>
    write_switch k s (Some r) v = ([Qemu_log_mask LOG_UNIMP], s)"
  by (auto simp: write_unimplemented_def)

lemma read_switch_plain:
  "r \<noteq> LINFLEX_LINCR1 \<Longrightarrow>
    read_switch s (Some r) =
      (if r = LINFLEX_BDRM then (regs s r AND 0xFF, [], s)
       else (regs s r, [Qemu_log_mask LOG_UNIMP], s))"
  by (cases r) simp_all

lemma write_switch_frame:
  assumes "a \<noteq> Some r"
    and "\<not> (a = Some LINFLEX_LINCR1 \<and> r = LINFLEX_LINSR)"
    and "\<not> (a = Some LINFLEX_BDRL \<and> r = LINFLEX_UARTSR)"
  shows "regs (snd (write_switch k s a v)) r = regs s r"
proof (cases a)
  case None
  then show ?thesis by simp
next
  case (Some x)
  with assms show ?thesis
    by (cases x) (auto simp: Let_def regs_set_reg)
qed

subsection \<open>Words\<close>

lemma word_or_and_same: "((a :: 32 word) OR b) AND b = b"
  by (rule bit_word_eqI) (auto simp: bit_simps)

lemma word_and_or_absorb: "(a :: 32 word) AND (a OR b) = a"
  by (rule bit_word_eqI) (auto simp: bit_simps)

lemma word_and_or_absorb2: "(a :: 32 word) AND ((a OR b) OR c) = a"
  by (rule bit_word_eqI) (auto simp: bit_simps)

lemma word_xor_and_not: "(a :: 32 word) XOR (a AND NOT m) = a AND m"
  by (rule bit_word_eqI) (auto simp: bit_simps)

lemma ucast_64_32_8: "(ucast (ucast (val :: 64 word) :: 32 word) :: 8 word) = ucast val"
  by (rule bit_word_eqI) (auto simp: bit_simps)

text \<open>Masking with a constant of at most 32 bits commutes with the truncation to 32 bits.\<close>

lemma ucast_and_low:
  assumes "take_bit 32 (m :: 64 word) = m"
  shows "(ucast ((ucast (val :: 64 word) :: 32 word) AND ucast m) :: 64 word) = val AND m"
proof (rule bit_word_eqI)
  fix n
  assume "n < LENGTH(64)"
  have "bit m n \<Longrightarrow> n < 32"
    using assms by (metis bit_take_bit_iff)
  then show "bit (ucast ((ucast val :: 32 word) AND ucast m) :: 64 word) n = bit (val AND m) n"
    by (auto simp: bit_simps)
qed

subsection \<open>Decoding inside the mapped window\<close>

text \<open>
  The device maps a window of 0x1000 bytes (\<open>memory_region_init_io\<close>). For an offset
  inside it the register index is offset / 4, and the index is no register exactly when
  it is 21 or more.
\<close>

lemma reg_of_index_None: "(reg_of_index i = None) = (21 \<le> i)"
  by (auto simp: reg_of_index_def linflex_regs_def)

lemma decode_reg_window:
  assumes "offset < 0x1000"
  shows "decode_reg offset = reg_of_index (unat offset div 4)"
proof -
  have "unat offset < 4096"
    using assms by (simp add: word_less_nat_alt)
  then have "unat (ucast (drop_bit 2 offset) :: 32 word) = unat offset div 4"
    by (simp add: unsigned_ucast_eq take_bit_eq_mod drop_bit_eq_div unat_div)
  then show ?thesis
    by (simp add: decode_reg_def)
qed

lemma decode_reg_None_window:
  "offset < 0x1000 \<Longrightarrow> (decode_reg offset = None) = (21 \<le> unat offset div 4)"
  by (simp add: decode_reg_window reg_of_index_None)

section \<open>The claims\<close>

text \<open>Unfolding the model at a concrete input.\<close>

lemmas linflex_eval =
  decode_reg_def reg_of_index_def linflex_regs_def reset_state_def
  fsl_linflex_reset_exit_def fsl_linflex_reset_hold_def fsl_linflex_reset_init_def
  set_reg_def linflexd_bits_def fsl_linflex_write_def fsl_linflex_read_def
  fsl_linflex_update_irq_def fsl_linflex_can_rx_def rx_state_def accept_input_calls_def Let_def

lemma decode_reg_0x00: "decode_reg 0x00 = Some LINFLEX_LINCR1"
  by (simp add: decode_reg_def reg_of_index_def linflex_regs_def)

lemma decode_reg_0x0C: "decode_reg 0x0C = Some LINFLEX_LINESR"
  by (simp add: decode_reg_def reg_of_index_def linflex_regs_def)

lemma decode_reg_0x10: "decode_reg 0x10 = Some LINFLEX_UARTCR"
  by (simp add: decode_reg_def reg_of_index_def linflex_regs_def)

lemma decode_reg_0x14: "decode_reg 0x14 = Some LINFLEX_UARTSR"
  by (simp add: decode_reg_def reg_of_index_def linflex_regs_def)

lemma decode_reg_0x1C: "decode_reg 0x1C = Some LINFLEX_LINOCR"
  by (simp add: decode_reg_def reg_of_index_def linflex_regs_def)

lemma decode_reg_0x38: "decode_reg 0x38 = Some LINFLEX_BDRL"
  by (simp add: decode_reg_def reg_of_index_def linflex_regs_def)

lemma decode_reg_0x3C: "decode_reg 0x3C = Some LINFLEX_BDRM"
  by (simp add: decode_reg_def reg_of_index_def linflex_regs_def)

lemma decode_reg_0x54: "decode_reg 0x54 = None"
  by (simp add: decode_reg_def reg_of_index_def linflex_regs_def)

subsection \<open>C1: the resume notification on a write to UART-Status\<close>

text \<open>
  C1 says that a write to UART-Status calls \<open>qemu_chr_fe_accept_input\<close> exactly when
  the register holds the receive-buffer-full (DRFRFE) or the receive-message-pending (RMB)
  flag and the written value, masked to 16 bits, has that same bit set. The code does
  otherwise: with \<open>mask = DRFRFE | RMB\<close> it makes the call exactly when the register has
  a bit of the mask set and the masked value has \<^emph>\<open>no\<close> bit of the mask set
  (\<open>(s->regs[reg] & mask) && !(value & mask)\<close>). So a write that clears the flags makes
  no call, and a write that leaves both flags set makes one. The theorem states what the
  code does, for every write to the register.
\<close>

theorem uartsr_write_accept_input:
  assumes "decode_reg offset = Some LINFLEX_UARTSR"
  shows "accept_input_calls (fst (fsl_linflex_write k s offset val sz)) =
    (if regs s LINFLEX_UARTSR AND (UARTSR_DRFRFE k OR UARTSR_RMB k) \<noteq> 0
        \<and> ((ucast val :: 32 word) AND 0xFFFF) AND (UARTSR_DRFRFE k OR UARTSR_RMB k) = 0
     then 1 else 0)"
  using assms
  by (simp add: fst_write accept_input_calls_append accept_input_calls_update_irq Let_def)
     (simp add: accept_input_calls_def)

text \<open>
  At a concrete input: after a reset and the delivery of the byte 0x41 UART-Status is
  0x206 (both receive flags and the transmit flag). The guest write of 0x204 to offset
  0x14 clears both receive flags, so that the device can receive again, and makes no
  call; the write of 0 clears nothing, the device still cannot receive, and the call is
  made.
\<close>

theorem uartsr_write_accept_input_witness:
  "decode_reg 0x14 = Some LINFLEX_UARTSR
   \<and> regs (rx_state linflexd_bits (reset_state linflexd_bits) [0x41]) LINFLEX_UARTSR = 0x206
   \<and> accept_input_calls (fst (fsl_linflex_write linflexd_bits
        (rx_state linflexd_bits (reset_state linflexd_bits) [0x41]) 0x14 0x204 4)) = 0
   \<and> fsl_linflex_can_rx linflexd_bits (snd (fsl_linflex_write linflexd_bits
        (rx_state linflexd_bits (reset_state linflexd_bits) [0x41]) 0x14 0x204 4)) = 1
   \<and> accept_input_calls (fst (fsl_linflex_write linflexd_bits
        (rx_state linflexd_bits (reset_state linflexd_bits) [0x41]) 0x14 0 4)) = 1
   \<and> fsl_linflex_can_rx linflexd_bits (snd (fsl_linflex_write linflexd_bits
        (rx_state linflexd_bits (reset_state linflexd_bits) [0x41]) 0x14 0 4)) = 0"
proof -
  let ?s = "rx_state linflexd_bits (reset_state linflexd_bits) [0x41]"
  have r: "regs ?s LINFLEX_UARTSR = 0x206"
    by (simp add: linflex_eval)
  have m: "UARTSR_DRFRFE linflexd_bits OR UARTSR_RMB linflexd_bits = 0x204"
    by (simp add: linflexd_bits_def)
  have a: "accept_input_calls (fst (fsl_linflex_write linflexd_bits ?s 0x14 0x204 4)) = 0"
    using uartsr_write_accept_input [OF decode_reg_0x14, of linflexd_bits ?s "0x204" 4]
    by (simp add: r m)
  have b: "accept_input_calls (fst (fsl_linflex_write linflexd_bits ?s 0x14 0 4)) = 1"
    using uartsr_write_accept_input [OF decode_reg_0x14, of linflexd_bits ?s 0 4]
    by (simp add: r m)
  have c: "fsl_linflex_can_rx linflexd_bits
      (snd (fsl_linflex_write linflexd_bits ?s 0x14 0x204 4)) = 1"
    by (simp add: linflex_eval)
  have e: "fsl_linflex_can_rx linflexd_bits
      (snd (fsl_linflex_write linflexd_bits ?s 0x14 0 4)) = 0"
    by (simp add: linflex_eval)
  from decode_reg_0x14 r a b c e show ?thesis by blast
qed

subsection \<open>C2: the interrupt line\<close>

text \<open>
  C2: a guest write to any offset, and the delivery of a byte, drive the interrupt line
  once, and to the level 1 if and only if, in the state the operation leaves, (the
  receive-complete interrupt enable DRIE is set and the receive-buffer-full flag DRFRFE is
  set) or (the transmit-complete interrupt enable DTIE is set and the
  transmit-buffer-empty flag DTFTFF is set), and to 0 otherwise.
\<close>

theorem irq_level_after_write_and_rx:
  "irq_levels (fst (fsl_linflex_write k s offset val sz)) =
     [if (regs (snd (fsl_linflex_write k s offset val sz)) LINFLEX_LINIER AND LINIER_DRIE k \<noteq> 0
          \<and> regs (snd (fsl_linflex_write k s offset val sz)) LINFLEX_UARTSR
              AND UARTSR_DRFRFE k \<noteq> 0)
        \<or> (regs (snd (fsl_linflex_write k s offset val sz)) LINFLEX_LINIER AND LINIER_DTIE k \<noteq> 0
          \<and> regs (snd (fsl_linflex_write k s offset val sz)) LINFLEX_UARTSR
              AND UARTSR_DTFTFF k \<noteq> 0)
      then 1 else 0]
   \<and> (\<exists>evs s'. fsl_linflex_rx k s (b # bs) = Some (evs, s') \<and>
        irq_levels evs =
          [if (regs s' LINFLEX_LINIER AND LINIER_DRIE k \<noteq> 0
               \<and> regs s' LINFLEX_UARTSR AND UARTSR_DRFRFE k \<noteq> 0)
             \<or> (regs s' LINFLEX_LINIER AND LINIER_DTIE k \<noteq> 0
               \<and> regs s' LINFLEX_UARTSR AND UARTSR_DTFTFF k \<noteq> 0)
           then 1 else 0])"
proof
  show "irq_levels (fst (fsl_linflex_write k s offset val sz)) =
     [if (regs (snd (fsl_linflex_write k s offset val sz)) LINFLEX_LINIER AND LINIER_DRIE k \<noteq> 0
          \<and> regs (snd (fsl_linflex_write k s offset val sz)) LINFLEX_UARTSR
              AND UARTSR_DRFRFE k \<noteq> 0)
        \<or> (regs (snd (fsl_linflex_write k s offset val sz)) LINFLEX_LINIER AND LINIER_DTIE k \<noteq> 0
          \<and> regs (snd (fsl_linflex_write k s offset val sz)) LINFLEX_UARTSR
              AND UARTSR_DTFTFF k \<noteq> 0)
      then 1 else 0]"
    unfolding fst_write snd_write irq_levels_append irq_levels_write_switch irq_levels_update_irq
    by simp
next
  show "\<exists>evs s'. fsl_linflex_rx k s (b # bs) = Some (evs, s') \<and>
        irq_levels evs =
          [if (regs s' LINFLEX_LINIER AND LINIER_DRIE k \<noteq> 0
               \<and> regs s' LINFLEX_UARTSR AND UARTSR_DRFRFE k \<noteq> 0)
             \<or> (regs s' LINFLEX_LINIER AND LINIER_DTIE k \<noteq> 0
               \<and> regs s' LINFLEX_UARTSR AND UARTSR_DTFTFF k \<noteq> 0)
           then 1 else 0]"
    unfolding fsl_linflex_rx.simps Let_def irq_levels_update_irq [symmetric]
    by blast
qed

text \<open>
  After a reset the transmit flag is set and no interrupt is enabled. Enabling the
  transmit interrupt (0x2 to offset 0x04) raises the line; enabling the receive interrupt
  only (0x4) leaves it low, also after a write to the invalid offset 0x54, until a byte is
  delivered.
\<close>

theorem irq_level_after_write_and_rx_witness:
  "irq_levels (fst (fsl_linflex_write linflexd_bits (reset_state linflexd_bits) 0x04 0x2 4)) = [1]
   \<and> irq_levels (fst (fsl_linflex_write linflexd_bits (reset_state linflexd_bits) 0x04 0x4 4)) = [0]
   \<and> irq_levels (fst (fsl_linflex_write linflexd_bits
        (snd (fsl_linflex_write linflexd_bits (reset_state linflexd_bits) 0x04 0x4 4))
        0x54 0x1 4)) = [0]
   \<and> (\<exists>evs s'. fsl_linflex_rx linflexd_bits
        (snd (fsl_linflex_write linflexd_bits (reset_state linflexd_bits) 0x04 0x4 4)) [0x41]
          = Some (evs, s') \<and> irq_levels evs = [1])"
proof -
  let ?s0 = "reset_state linflexd_bits"
  let ?s1 = "snd (fsl_linflex_write linflexd_bits ?s0 0x04 0x4 4)"
  have a: "irq_levels (fst (fsl_linflex_write linflexd_bits ?s0 0x04 0x2 4)) = [1]"
    using irq_level_after_write_and_rx [of linflexd_bits ?s0 "0x04" "0x2" 4 0 "[]"]
    by (simp add: linflex_eval)
  have b: "irq_levels (fst (fsl_linflex_write linflexd_bits ?s0 0x04 0x4 4)) = [0]"
    using irq_level_after_write_and_rx [of linflexd_bits ?s0 "0x04" "0x4" 4 0 "[]"]
    by (simp add: linflex_eval)
  have c: "irq_levels (fst (fsl_linflex_write linflexd_bits ?s1 0x54 0x1 4)) = [0]"
    using irq_level_after_write_and_rx [of linflexd_bits ?s1 "0x54" "0x1" 4 0 "[]"]
    by (simp add: linflex_eval)
  have d: "\<exists>evs s'. fsl_linflex_rx linflexd_bits ?s1 [0x41] = Some (evs, s')
      \<and> irq_levels evs = [1]"
    using irq_level_after_write_and_rx [of linflexd_bits ?s1 0 0 4 "0x41" "[]"]
    by (simp add: linflex_eval)
  from a b c d show ?thesis by blast
qed

subsection \<open>C3: UART-Status is cleared by writing ones\<close>

text \<open>
  C3: a guest write of \<open>v\<close> to UART-Status leaves the old value AND NOT (\<open>v\<close> masked
  to 16 bits) in the register: the bits that change are exactly the bits set in both the
  old value and the mask. Writing the same value a second time changes no register.
\<close>

theorem uartsr_write_clears:
  assumes "decode_reg offset = Some LINFLEX_UARTSR"
  shows "regs (snd (fsl_linflex_write k s offset val sz)) LINFLEX_UARTSR =
      regs s LINFLEX_UARTSR AND NOT ((ucast val :: 32 word) AND 0xFFFF)
    \<and> regs s LINFLEX_UARTSR XOR regs (snd (fsl_linflex_write k s offset val sz)) LINFLEX_UARTSR =
      regs s LINFLEX_UARTSR AND ((ucast val :: 32 word) AND 0xFFFF)
    \<and> regs (snd (fsl_linflex_write k (snd (fsl_linflex_write k s offset val sz)) offset val sz)) =
      regs (snd (fsl_linflex_write k s offset val sz))"
proof -
  define m where "m = (ucast val :: 32 word) AND 0xFFFF"
  have w: "snd (fsl_linflex_write k t offset val sz) =
      set_reg t LINFLEX_UARTSR (regs t LINFLEX_UARTSR AND NOT m)" for t
    unfolding m_def using assms by (simp add: snd_write Let_def)
  have "regs (snd (fsl_linflex_write k s offset val sz)) LINFLEX_UARTSR =
      regs s LINFLEX_UARTSR AND NOT m"
    by (simp add: w regs_set_reg)
  moreover have "regs s LINFLEX_UARTSR XOR
      regs (snd (fsl_linflex_write k s offset val sz)) LINFLEX_UARTSR = regs s LINFLEX_UARTSR AND m"
    by (simp add: w regs_set_reg word_xor_and_not)
  moreover have "regs (snd (fsl_linflex_write k (snd (fsl_linflex_write k s offset val sz))
      offset val sz)) = regs (snd (fsl_linflex_write k s offset val sz))"
    by (simp add: w regs_set_reg fun_eq_iff and.assoc)
  ultimately show ?thesis
    unfolding m_def by blast
qed

text \<open>
  After a reset and a delivery UART-Status is 0x206; the write of 0x100000204 (bit 32 is
  cut off) leaves 0x2, and so does the same write once more.
\<close>

theorem uartsr_write_clears_witness:
  "decode_reg 0x14 = Some LINFLEX_UARTSR
   \<and> regs (snd (fsl_linflex_write linflexd_bits
        (rx_state linflexd_bits (reset_state linflexd_bits) [0x41]) 0x14 0x100000204 4))
        LINFLEX_UARTSR = 0x2
   \<and> regs (snd (fsl_linflex_write linflexd_bits
        (snd (fsl_linflex_write linflexd_bits
          (rx_state linflexd_bits (reset_state linflexd_bits) [0x41]) 0x14 0x100000204 4))
        0x14 0x100000204 4)) LINFLEX_UARTSR = 0x2"
proof -
  let ?s = "rx_state linflexd_bits (reset_state linflexd_bits) [0x41]"
  note t = uartsr_write_clears [OF decode_reg_0x14, of linflexd_bits ?s "0x100000204" 4]
  have r: "regs ?s LINFLEX_UARTSR = 0x206"
    by (simp add: linflex_eval)
  from t r have a: "regs (snd (fsl_linflex_write linflexd_bits ?s 0x14 0x100000204 4))
      LINFLEX_UARTSR = 0x2"
    by simp
  from t a have "regs (snd (fsl_linflex_write linflexd_bits
      (snd (fsl_linflex_write linflexd_bits ?s 0x14 0x100000204 4)) 0x14 0x100000204 4))
      LINFLEX_UARTSR = 0x2"
    by simp
  with decode_reg_0x14 a show ?thesis by blast
qed

subsection \<open>C4: UART-Control is gated by INIT and by the UART mode\<close>

text \<open>
  C4: on a guest write to UART-Control,
  \<^item> with the INIT bit of Control-1 clear and the UART-mode bit of UART-Control clear, the
    register keeps its value;
  \<^item> with INIT clear and the UART-mode bit set, \<open>value & 0x0070FC30\<close> is OR-ed in;
  \<^item> with INIT set, the UART-mode bit of the value is OR-ed in and, when the UART-mode bit
    is set after that, the whole value is OR-ed in;
  \<^item> in every case no bit that was set is cleared.
\<close>

theorem uartcr_write_gated:
  assumes "decode_reg offset = Some LINFLEX_UARTCR"
  shows "(regs s LINFLEX_LINCR1 AND LINCR1_INIT k = 0 \<and> regs s LINFLEX_UARTCR AND UARTCR_UART k = 0
        \<longrightarrow> regs (snd (fsl_linflex_write k s offset val sz)) LINFLEX_UARTCR = regs s LINFLEX_UARTCR)
    \<and> (regs s LINFLEX_LINCR1 AND LINCR1_INIT k = 0 \<and> regs s LINFLEX_UARTCR AND UARTCR_UART k \<noteq> 0
        \<longrightarrow> regs (snd (fsl_linflex_write k s offset val sz)) LINFLEX_UARTCR =
            regs s LINFLEX_UARTCR OR ((ucast val :: 32 word) AND 0x0070FC30))
    \<and> (regs s LINFLEX_LINCR1 AND LINCR1_INIT k \<noteq> 0
        \<longrightarrow> regs (snd (fsl_linflex_write k s offset val sz)) LINFLEX_UARTCR =
            (if (regs s LINFLEX_UARTCR OR ((ucast val :: 32 word) AND UARTCR_UART k))
                  AND UARTCR_UART k \<noteq> 0
             then (regs s LINFLEX_UARTCR OR ((ucast val :: 32 word) AND UARTCR_UART k)) OR ucast val
             else regs s LINFLEX_UARTCR OR ((ucast val :: 32 word) AND UARTCR_UART k)))
    \<and> regs s LINFLEX_UARTCR AND regs (snd (fsl_linflex_write k s offset val sz)) LINFLEX_UARTCR =
        regs s LINFLEX_UARTCR"
  using assms
  by (simp add: snd_write Let_def regs_set_reg word_and_or_absorb word_and_or_absorb2)

text \<open>
  After a reset INIT is clear and UART-Control is 0: the write of 0x33 is dropped. With
  INIT set (1 written to Control-1) the write of 0x32, without the UART-mode bit, stores
  nothing and the write of 0x33 stores 0x33. With INIT cleared again the write of
  0xFFFFFFFF adds the bits of 0x0070FC30 only.
\<close>

theorem uartcr_write_gated_witness:
  "decode_reg 0x10 = Some LINFLEX_UARTCR
   \<and> regs (snd (fsl_linflex_write linflexd_bits (reset_state linflexd_bits) 0x10 0x33 4))
        LINFLEX_UARTCR = 0
   \<and> regs (snd (fsl_linflex_write linflexd_bits
        (snd (fsl_linflex_write linflexd_bits (reset_state linflexd_bits) 0x00 0x1 4))
        0x10 0x32 4)) LINFLEX_UARTCR = 0
   \<and> regs (snd (fsl_linflex_write linflexd_bits
        (snd (fsl_linflex_write linflexd_bits (reset_state linflexd_bits) 0x00 0x1 4))
        0x10 0x33 4)) LINFLEX_UARTCR = 0x33
   \<and> regs (snd (fsl_linflex_write linflexd_bits
        (snd (fsl_linflex_write linflexd_bits
          (snd (fsl_linflex_write linflexd_bits
            (snd (fsl_linflex_write linflexd_bits (reset_state linflexd_bits) 0x00 0x1 4))
            0x10 0x33 4))
          0x00 0x0 4))
        0x10 0xFFFFFFFF 4)) LINFLEX_UARTCR = 0x0070FC33"
proof -
  let ?s0 = "reset_state linflexd_bits"
  let ?s1 = "snd (fsl_linflex_write linflexd_bits ?s0 0x00 0x1 4)"
  let ?s2 = "snd (fsl_linflex_write linflexd_bits ?s1 0x10 0x33 4)"
  let ?s3 = "snd (fsl_linflex_write linflexd_bits ?s2 0x00 0x0 4)"
  have a: "regs (snd (fsl_linflex_write linflexd_bits ?s0 0x10 0x33 4)) LINFLEX_UARTCR = 0"
    using uartcr_write_gated [OF decode_reg_0x10, of ?s0 linflexd_bits "0x33" 4]
    by (simp add: linflex_eval)
  have b: "regs (snd (fsl_linflex_write linflexd_bits ?s1 0x10 0x32 4)) LINFLEX_UARTCR = 0"
    using uartcr_write_gated [OF decode_reg_0x10, of ?s1 linflexd_bits "0x32" 4]
    by (simp add: linflex_eval)
  have c: "regs ?s2 LINFLEX_UARTCR = 0x33"
    using uartcr_write_gated [OF decode_reg_0x10, of ?s1 linflexd_bits "0x33" 4]
    by (simp add: linflex_eval)
  have d: "regs (snd (fsl_linflex_write linflexd_bits ?s3 0x10 0xFFFFFFFF 4)) LINFLEX_UARTCR
      = 0x0070FC33"
    using uartcr_write_gated [OF decode_reg_0x10, of ?s3 linflexd_bits "0xFFFFFFFF" 4]
    by (simp add: linflex_eval)
  from decode_reg_0x10 a b c d show ?thesis by blast
qed

subsection \<open>C5: writes to the registers that are not implemented\<close>

text \<open>
  C5 says that a guest write to a register whose behaviour is not modelled stores the
  written value in the slot of the register, and that a read returns it. The code stores
  nothing: after a reset the Output-Compare register LINOCR (offset 0x1C) holds 0xFFFF,
  and after the guest write of 0x1234 it still does, as the read shows.
\<close>

theorem unimplemented_write_stored_counterexample:
  "decode_reg 0x1C = Some LINFLEX_LINOCR
   \<and> regs (snd (fsl_linflex_write linflexd_bits (reset_state linflexd_bits) 0x1C 0x1234 4))
        LINFLEX_LINOCR = 0xFFFF
   \<and> regs (snd (fsl_linflex_write linflexd_bits (reset_state linflexd_bits) 0x1C 0x1234 4))
        LINFLEX_LINOCR \<noteq> 0x1234
   \<and> fst (fsl_linflex_read
        (snd (fsl_linflex_write linflexd_bits (reset_state linflexd_bits) 0x1C 0x1234 4))
        0x1C 4) = 0xFFFF
   \<and> fst (fsl_linflex_read
        (snd (fsl_linflex_write linflexd_bits (reset_state linflexd_bits) 0x1C 0x1234 4))
        0x1C 4) \<noteq> 0x1234"
  by (simp add: linflex_eval)

text \<open>
  C5 as the code has it: a guest write to a register whose label in the write switch only
  logs "not implemented" (LINSR, LINESR, LINTCSR, LINOCR, LINTOCR, LINFBRR, LINIBRR, LINCFR,
  LINCR2, BIDR, BDRM, GCR, UARTPTO, UARTCTO, DMATXE, DMARXE) is logged, drives the interrupt
  line and leaves the whole state as it was; the written value is not stored. A read of
  the register after the write returns the value the slot held before the write (of BDRM:
  its low byte).
\<close>

theorem unimplemented_write_dropped:
  assumes "decode_reg offset = Some r" and "r \<in> set write_unimplemented"
  shows "fsl_linflex_write k s offset val sz =
        (Qemu_log_mask LOG_UNIMP # fsl_linflex_update_irq k s, s)
    \<and> fst (fsl_linflex_read (snd (fsl_linflex_write k s offset val sz)) offset sz') =
        ucast (if r = LINFLEX_BDRM then regs s r AND 0xFF else regs s r)"
proof -
  from assms(2) have "r \<noteq> LINFLEX_LINCR1"
    by (auto simp: write_unimplemented_def)
  then show ?thesis
    using assms
    by (simp add: fsl_linflex_write_def fsl_linflex_read_def write_switch_unimplemented
        read_switch_plain)
qed

theorem unimplemented_write_dropped_witness:
  "decode_reg 0x0C = Some LINFLEX_LINESR
   \<and> LINFLEX_LINESR \<in> set write_unimplemented
   \<and> fsl_linflex_write linflexd_bits (reset_state linflexd_bits) 0x0C 0x1 4 =
        ([Qemu_log_mask LOG_UNIMP, Qemu_set_irq 0], reset_state linflexd_bits)
   \<and> fst (fsl_linflex_read
        (snd (fsl_linflex_write linflexd_bits (reset_state linflexd_bits) 0x0C 0x1 4)) 0x0C 4) = 0
   \<and> decode_reg 0x3C = Some LINFLEX_BDRM
   \<and> LINFLEX_BDRM \<in> set write_unimplemented
   \<and> fst (fsl_linflex_read
        (snd (fsl_linflex_write linflexd_bits
          (rx_state linflexd_bits (reset_state linflexd_bits) [0x41]) 0x3C 0x1FF 4)) 0x3C 4) = 0x41"
proof -
  let ?s0 = "reset_state linflexd_bits"
  let ?s1 = "rx_state linflexd_bits ?s0 [0x41]"
  have m1: "LINFLEX_LINESR \<in> set write_unimplemented"
    by (simp add: write_unimplemented_def)
  have m2: "LINFLEX_BDRM \<in> set write_unimplemented"
    by (simp add: write_unimplemented_def)
  have i: "fsl_linflex_update_irq linflexd_bits ?s0 = [Qemu_set_irq 0]"
    by (simp add: linflex_eval)
  have l: "regs ?s0 LINFLEX_LINESR = 0"
    by (simp add: linflex_eval)
  have b: "regs ?s1 LINFLEX_BDRM = 0x41"
    by (simp add: linflex_eval)
  note t1 = unimplemented_write_dropped [OF decode_reg_0x0C m1, of linflexd_bits ?s0 "0x1" 4 4]
  note t2 = unimplemented_write_dropped [OF decode_reg_0x3C m2, of linflexd_bits ?s1 "0x1FF" 4 4]
  from t1 [THEN conjunct1] i have a: "fsl_linflex_write linflexd_bits ?s0 0x0C 0x1 4 =
      ([Qemu_log_mask LOG_UNIMP, Qemu_set_irq 0], ?s0)"
    by simp
  from t1 [THEN conjunct2] l have c: "fst (fsl_linflex_read
      (snd (fsl_linflex_write linflexd_bits ?s0 0x0C 0x1 4)) 0x0C 4) = 0"
    by simp
  from t2 [THEN conjunct2] b have d: "fst (fsl_linflex_read
      (snd (fsl_linflex_write linflexd_bits ?s1 0x3C 0x1FF 4)) 0x3C 4) = 0x41"
    by simp
  from decode_reg_0x0C decode_reg_0x3C m1 m2 a c d show ?thesis by blast
qed

subsection \<open>C6: writes to Control-1\<close>

text \<open>
  C6: after a guest write of \<open>v\<close> to Control-1 the register holds \<open>v & 0x0001DF27\<close>;
  if the INIT bit is set in what was stored, the INIT-state flag of the LIN status register
  is set after the write; and if that flag was set before the write, it is set after it.
\<close>

theorem lincr1_write_masked:
  assumes "decode_reg offset = Some LINFLEX_LINCR1"
  shows "(ucast (regs (snd (fsl_linflex_write k s offset val sz)) LINFLEX_LINCR1) :: 64 word) =
        val AND 0x0001DF27
    \<and> (regs (snd (fsl_linflex_write k s offset val sz)) LINFLEX_LINCR1 AND LINCR1_INIT k \<noteq> 0
        \<longrightarrow> regs (snd (fsl_linflex_write k s offset val sz)) LINFLEX_LINSR AND LINSR_LINS_INIT k =
            LINSR_LINS_INIT k)
    \<and> (regs s LINFLEX_LINSR AND LINSR_LINS_INIT k = LINSR_LINS_INIT k
        \<longrightarrow> regs (snd (fsl_linflex_write k s offset val sz)) LINFLEX_LINSR AND LINSR_LINS_INIT k =
            LINSR_LINS_INIT k)"
proof -
  have m: "(ucast ((ucast val :: 32 word) AND 0x0001DF27) :: 64 word) = val AND 0x0001DF27"
    using ucast_and_low [of "0x0001DF27" val] by simp
  show ?thesis
    using assms by (simp add: snd_write Let_def regs_set_reg m word_or_and_same)
qed

text \<open>
  After a reset the LIN status register is 0x40. The write of 0x1FFFFFFFF to Control-1
  stores 0x1DF27 and sets the INIT-state flag (0x1000); the write of 0 that follows stores
  0 and leaves the flag set.
\<close>

theorem lincr1_write_masked_witness:
  "decode_reg 0x00 = Some LINFLEX_LINCR1
   \<and> regs (snd (fsl_linflex_write linflexd_bits (reset_state linflexd_bits) 0x00 0x1FFFFFFFF 4))
        LINFLEX_LINCR1 = 0x0001DF27
   \<and> regs (snd (fsl_linflex_write linflexd_bits (reset_state linflexd_bits) 0x00 0x1FFFFFFFF 4))
        LINFLEX_LINSR = 0x1040
   \<and> regs (snd (fsl_linflex_write linflexd_bits
        (snd (fsl_linflex_write linflexd_bits (reset_state linflexd_bits) 0x00 0x1FFFFFFFF 4))
        0x00 0x0 4)) LINFLEX_LINCR1 = 0
   \<and> regs (snd (fsl_linflex_write linflexd_bits
        (snd (fsl_linflex_write linflexd_bits (reset_state linflexd_bits) 0x00 0x1FFFFFFFF 4))
        0x00 0x0 4)) LINFLEX_LINSR AND LINSR_LINS_INIT linflexd_bits = 0x1000"
proof -
  let ?s0 = "reset_state linflexd_bits"
  let ?s1 = "snd (fsl_linflex_write linflexd_bits ?s0 0x00 0x1FFFFFFFF 4)"
  have a: "regs ?s1 LINFLEX_LINCR1 = 0x0001DF27"
    by (simp add: linflex_eval)
  have b: "regs ?s1 LINFLEX_LINSR = 0x1040"
    by (simp add: linflex_eval)
  have c: "regs (snd (fsl_linflex_write linflexd_bits ?s1 0x00 0x0 4)) LINFLEX_LINCR1 = 0"
    by (simp add: linflex_eval)
  have k: "LINSR_LINS_INIT linflexd_bits = 0x1000"
    by (simp add: linflexd_bits_def)
  from lincr1_write_masked [OF decode_reg_0x00, of linflexd_bits ?s1 0 4] b k
  have d: "regs (snd (fsl_linflex_write linflexd_bits ?s1 0x00 0x0 4)) LINFLEX_LINSR
      AND LINSR_LINS_INIT linflexd_bits = 0x1000"
    by simp
  from decode_reg_0x00 a b c d show ?thesis by blast
qed

subsection \<open>C7: writes to the transmit data buffer\<close>

text \<open>
  C7: a guest write of \<open>v\<close> to the transmit data buffer BDRL stores \<open>v\<close>, truncated
  to 32 bits, in the register, hands exactly one byte, the low byte of \<open>v\<close>, to
  \<open>qemu_chr_fe_write_all\<close> (the only call before the interrupt line is driven), and
  leaves the transmit-buffer-empty flag DTFTFF of UART-Status set.
\<close>

theorem bdrl_write_transmits:
  assumes "decode_reg offset = Some LINFLEX_BDRL"
  shows "regs (snd (fsl_linflex_write k s offset val sz)) LINFLEX_BDRL = ucast val
    \<and> chr_written (fst (fsl_linflex_write k s offset val sz)) = [ucast val]
    \<and> fst (fsl_linflex_write k s offset val sz) =
        Qemu_chr_fe_write_all [ucast val]
          # fsl_linflex_update_irq k (snd (fsl_linflex_write k s offset val sz))
    \<and> regs (snd (fsl_linflex_write k s offset val sz)) LINFLEX_UARTSR AND UARTSR_DTFTFF k =
        UARTSR_DTFTFF k"
  using assms
  by (simp add: snd_write fst_write Let_def regs_set_reg chr_written_append
      chr_written_update_irq ucast_64_32_8 word_or_and_same)

text \<open>
  With UART-Status cleared by the guest (0xFFFF written to offset 0x14 after a reset), the
  write of 0x100004241 to offset 0x38 stores 0x4241, sends the byte 0x41 and sets the
  transmit flag 0x2 again.
\<close>

theorem bdrl_write_transmits_witness:
  "decode_reg 0x38 = Some LINFLEX_BDRL
   \<and> regs (snd (fsl_linflex_write linflexd_bits (reset_state linflexd_bits) 0x14 0xFFFF 4))
        LINFLEX_UARTSR = 0
   \<and> regs (snd (fsl_linflex_write linflexd_bits
        (snd (fsl_linflex_write linflexd_bits (reset_state linflexd_bits) 0x14 0xFFFF 4))
        0x38 0x100004241 4)) LINFLEX_BDRL = 0x4241
   \<and> chr_written (fst (fsl_linflex_write linflexd_bits
        (snd (fsl_linflex_write linflexd_bits (reset_state linflexd_bits) 0x14 0xFFFF 4))
        0x38 0x100004241 4)) = [0x41]
   \<and> regs (snd (fsl_linflex_write linflexd_bits
        (snd (fsl_linflex_write linflexd_bits (reset_state linflexd_bits) 0x14 0xFFFF 4))
        0x38 0x100004241 4)) LINFLEX_UARTSR AND 0x2 = 0x2"
proof -
  let ?s1 = "snd (fsl_linflex_write linflexd_bits (reset_state linflexd_bits) 0x14 0xFFFF 4)"
  note t = bdrl_write_transmits [OF decode_reg_0x38, of linflexd_bits ?s1 "0x100004241" 4]
  have u: "regs ?s1 LINFLEX_UARTSR = 0"
    by (simp add: linflex_eval)
  have k: "UARTSR_DTFTFF linflexd_bits = 0x2"
    by (simp add: linflexd_bits_def)
  from t [THEN conjunct1]
  have a: "regs (snd (fsl_linflex_write linflexd_bits ?s1 0x38 0x100004241 4)) LINFLEX_BDRL
      = 0x4241"
    by simp
  from t [THEN conjunct2, THEN conjunct1]
  have b: "chr_written (fst (fsl_linflex_write linflexd_bits ?s1 0x38 0x100004241 4)) = [0x41]"
    by simp
  from t [THEN conjunct2, THEN conjunct2, THEN conjunct2] k
  have c: "regs (snd (fsl_linflex_write linflexd_bits ?s1 0x38 0x100004241 4)) LINFLEX_UARTSR
      AND 0x2 = 0x2"
    by simp
  from decode_reg_0x38 u a b c show ?thesis by blast
qed

subsection \<open>C8: reads of Control-1\<close>

text \<open>
  C8: in every state of the registers a guest read of Control-1 returns a value with bit
  7 set, leaves bit 7 set in the register (the register is its old value OR 0x80), and the
  value returned is the value of the register after the read.
\<close>

theorem lincr1_read_bit7:
  assumes "decode_reg offset = Some LINFLEX_LINCR1"
  shows "bit (fst (fsl_linflex_read s offset sz)) 7
    \<and> bit (regs (snd (snd (fsl_linflex_read s offset sz))) LINFLEX_LINCR1) 7
    \<and> fst (fsl_linflex_read s offset sz) =
        ucast (regs (snd (snd (fsl_linflex_read s offset sz))) LINFLEX_LINCR1)
    \<and> regs (snd (snd (fsl_linflex_read s offset sz))) LINFLEX_LINCR1 =
        regs s LINFLEX_LINCR1 OR 0x80"
  using assms by (simp add: fsl_linflex_read_def Let_def regs_set_reg bit_simps)

text \<open>
  The guest write of 0 to Control-1 clears the register; the read that follows returns
  0x80 and stores 0x80.
\<close>

theorem lincr1_read_bit7_witness:
  "decode_reg 0x00 = Some LINFLEX_LINCR1
   \<and> regs (snd (fsl_linflex_write linflexd_bits (reset_state linflexd_bits) 0x00 0x0 4))
        LINFLEX_LINCR1 = 0
   \<and> fst (fsl_linflex_read
        (snd (fsl_linflex_write linflexd_bits (reset_state linflexd_bits) 0x00 0x0 4)) 0x00 4)
        = 0x80
   \<and> regs (snd (snd (fsl_linflex_read
        (snd (fsl_linflex_write linflexd_bits (reset_state linflexd_bits) 0x00 0x0 4)) 0x00 4)))
        LINFLEX_LINCR1 = 0x80"
proof -
  let ?s1 = "snd (fsl_linflex_write linflexd_bits (reset_state linflexd_bits) 0x00 0x0 4)"
  note t = lincr1_read_bit7 [OF decode_reg_0x00, of ?s1 4]
  have z: "regs ?s1 LINFLEX_LINCR1 = 0"
    by (simp add: linflex_eval)
  from t z have b: "regs (snd (snd (fsl_linflex_read ?s1 0x00 4))) LINFLEX_LINCR1 = 0x80"
    by simp
  from t b have a: "fst (fsl_linflex_read ?s1 0x00 4) = 0x80"
    by simp
  from decode_reg_0x00 z a b show ?thesis by blast
qed

subsection \<open>C9: accesses outside the registers\<close>

text \<open>
  C9: when the index decoded from the offset is no register of the enumeration, a guest
  read returns 0 and a guest write leaves the state, so every register, as it was. Both
  are logged as guest errors and return normally: the read its value, the write after
  driving the interrupt line. (Inside the mapped window of 0x1000 bytes these are the
  offsets with offset / 4 at least 21.)
\<close>

theorem invalid_register_access:
  assumes "decode_reg offset = None"
  shows "fsl_linflex_read s offset sz = (0, [Qemu_log_mask LOG_GUEST_ERROR], s)
    \<and> fsl_linflex_write k s offset val sz' =
        (Qemu_log_mask LOG_GUEST_ERROR # fsl_linflex_update_irq k s, s)"
  using assms by (simp add: fsl_linflex_read_def fsl_linflex_write_def)

text \<open>Offset 0x54 is the first one past the last register, offset 0xFFC the last one.\<close>

theorem invalid_register_access_witness:
  "decode_reg 0x54 = None
   \<and> fsl_linflex_read (reset_state linflexd_bits) 0x54 4 =
        (0, [Qemu_log_mask LOG_GUEST_ERROR], reset_state linflexd_bits)
   \<and> fsl_linflex_write linflexd_bits (reset_state linflexd_bits) 0x54 0xFFFFFFFF 4 =
        ([Qemu_log_mask LOG_GUEST_ERROR, Qemu_set_irq 0], reset_state linflexd_bits)
   \<and> decode_reg 0xFFC = None
   \<and> fst (fsl_linflex_read (reset_state linflexd_bits) 0xFFC 4) = 0"
proof -
  let ?s0 = "reset_state linflexd_bits"
  have i: "fsl_linflex_update_irq linflexd_bits ?s0 = [Qemu_set_irq 0]"
    by (simp add: linflex_eval)
  have w: "(0xFFC :: 64 word) < 0x1000"
    by simp
  have e: "decode_reg 0xFFC = None"
    using decode_reg_None_window [OF w] by simp
  note t = invalid_register_access [OF decode_reg_0x54, of ?s0 4 linflexd_bits "0xFFFFFFFF" 4]
  note t' = invalid_register_access [OF e, of ?s0 4 linflexd_bits 0 4]
  from t [THEN conjunct2] i
  have a: "fsl_linflex_write linflexd_bits ?s0 0x54 0xFFFFFFFF 4 =
      ([Qemu_log_mask LOG_GUEST_ERROR, Qemu_set_irq 0], ?s0)"
    by simp
  from t' [THEN conjunct1] have b: "fst (fsl_linflex_read ?s0 0xFFC 4) = 0"
    by simp
  from decode_reg_0x54 t [THEN conjunct1] a e b show ?thesis by blast
qed

subsection \<open>C10: what a write can change\<close>

text \<open>
  C10: a guest write to any offset leaves a register slot \<open>r\<close> as it was, unless \<open>r\<close>
  is the addressed register, or \<open>r\<close> is the LIN status register and the addressed
  register is Control-1, or \<open>r\<close> is UART-Status and the addressed register is the
  transmit data buffer. A write to an offset that decodes to no register, or to a
  register whose write is not implemented, changes nothing at all.
\<close>

theorem write_frame:
  "(decode_reg offset \<noteq> Some r
      \<and> \<not> (decode_reg offset = Some LINFLEX_LINCR1 \<and> r = LINFLEX_LINSR)
      \<and> \<not> (decode_reg offset = Some LINFLEX_BDRL \<and> r = LINFLEX_UARTSR)
     \<longrightarrow> regs (snd (fsl_linflex_write k s offset val sz)) r = regs s r)
   \<and> (decode_reg offset = None \<or> decode_reg offset \<in> Some ` set write_unimplemented
     \<longrightarrow> snd (fsl_linflex_write k s offset val sz) = s)"
  by (auto simp: snd_write write_switch_frame write_switch_unimplemented)

text \<open>
  The write of 1 to Control-1 after a reset changes Control-1 (0x82 to 1) and the LIN
  status register (0x40 to 0x1040) and leaves UART-Status at 0x2; the write to the receive
  buffer BDRM (offset 0x3C), which is not implemented, and the write to offset 0x54 leave
  the state as it was.
\<close>

theorem write_frame_witness:
  "decode_reg 0x00 = Some LINFLEX_LINCR1
   \<and> regs (reset_state linflexd_bits) LINFLEX_UARTSR = 0x2
   \<and> regs (snd (fsl_linflex_write linflexd_bits (reset_state linflexd_bits) 0x00 0x1 4))
        LINFLEX_UARTSR = 0x2
   \<and> regs (snd (fsl_linflex_write linflexd_bits (reset_state linflexd_bits) 0x00 0x1 4))
        LINFLEX_LINCR1 = 0x1
   \<and> regs (snd (fsl_linflex_write linflexd_bits (reset_state linflexd_bits) 0x00 0x1 4))
        LINFLEX_LINSR = 0x1040
   \<and> decode_reg 0x3C \<in> Some ` set write_unimplemented
   \<and> snd (fsl_linflex_write linflexd_bits (reset_state linflexd_bits) 0x3C 0x41 4) =
        reset_state linflexd_bits
   \<and> decode_reg 0x54 = None
   \<and> snd (fsl_linflex_write linflexd_bits (reset_state linflexd_bits) 0x54 0x41 4) =
        reset_state linflexd_bits"
proof -
  let ?s0 = "reset_state linflexd_bits"
  have u: "regs ?s0 LINFLEX_UARTSR = 0x2"
    by (simp add: linflex_eval)
  have m: "decode_reg 0x3C \<in> Some ` set write_unimplemented"
    by (simp add: decode_reg_0x3C write_unimplemented_def)
  from write_frame [of "0x00" LINFLEX_UARTSR linflexd_bits ?s0 "0x1" 4] decode_reg_0x00 u
  have a: "regs (snd (fsl_linflex_write linflexd_bits ?s0 0x00 0x1 4)) LINFLEX_UARTSR = 0x2"
    by simp
  have b: "regs (snd (fsl_linflex_write linflexd_bits ?s0 0x00 0x1 4)) LINFLEX_LINCR1 = 0x1"
    by (simp add: linflex_eval)
  have c: "regs (snd (fsl_linflex_write linflexd_bits ?s0 0x00 0x1 4)) LINFLEX_LINSR = 0x1040"
    by (simp add: linflex_eval)
  from write_frame [of "0x3C" LINFLEX_UARTSR linflexd_bits ?s0 "0x41" 4] m
  have d: "snd (fsl_linflex_write linflexd_bits ?s0 0x3C 0x41 4) = ?s0"
    by blast
  from write_frame [of "0x54" LINFLEX_UARTSR linflexd_bits ?s0 "0x41" 4] decode_reg_0x54
  have e: "snd (fsl_linflex_write linflexd_bits ?s0 0x54 0x41 4) = ?s0"
    by blast
  from decode_reg_0x00 u a b c m d decode_reg_0x54 e show ?thesis by blast
qed

end
